theory Spec2Isabelle
  imports Complex_Main
begin

section \<open>Data model\<close>

text \<open>
  The training script \<^verbatim>\<open>main.py\<close> works on floating-point tensors; the
  embedding reads every float as a \<^typ>\<open>real\<close> (no rounding, no NaN) and every
  label matrix as a list of rows of naturals (0 or 1).
\<close>

definition frame_classes :: "string list" where
  "frame_classes = [''PERSON'', ''LOC'', ''ORG'', ''WORK_OF_ART'', ''PRODUCT'', ''EVENT'', ''OTHER'']"

definition no_of_classes :: nat where
  "no_of_classes = length frame_classes"

datatype phase = Train | Val

datatype error = ZeroDivisionError | FileNotFoundError

type_synonym matrix = "nat list list"

type_synonym rmatrix = "real list list"

text \<open>
  One element of a data loader, unpacked by the loop header
  \<^verbatim>\<open>(inputs, labels)\<close>. \<^verbatim>\<open>TEXT = Field(sequential=True, ...)\<close> is built
  without \<^verbatim>\<open>batch_first\<close>, so \<open>inputs\<close> is the token-id tensor with one row per
  time step and one column per example. \<open>labels\<close> is the tuple of the target fields, one
  column of per-example labels for each frame class; \<^verbatim>\<open>torch.stack(labels, dim=1)\<close>
  turns the tuple into the matrix with one row per example.
\<close>

record batch =
  inputs :: "nat list list"
  labels :: "nat list list"

definition size0 :: "'a list list \<Rightarrow> nat" where
  "size0 t = length t"

definition stack_dim1 :: "'a list list \<Rightarrow> 'a list list" where
  "stack_dim1 cols = transpose cols"

text \<open>
  A data loader: the length of its dataset and the batches of each pass over it (the
  training iterator reshuffles, so the pass of epoch \<open>e\<close> is \<open>batches dl e\<close>).
  \<^verbatim>\<open>len(dataloaders[phase])\<close> is the number of batches of a pass.
\<close>

record dataloader =
  dataset_len :: nat
  batches :: "nat \<Rightarrow> batch list"

datatype log_line =
    EpochHeader nat nat
  | Dashes
  | TrainProgress nat nat nat real real
  | PhaseSummary phase real real real real real
  | TrainingCompleted
  | BestOverall string real
  | TestSummary real real real real
  | Message string

text \<open>
  The mutable world of a run. A parameter tensor lives in \<open>heap\<close> at an address; the
  module's \<^verbatim>\<open>training\<close> flag, the state of the random generator that dropout
  draws from, the optimizer's moments and learning rate, the files under
  \<^verbatim>\<open>./models\<close> and \<^verbatim>\<open>./graphs\<close>, and the lines logged or printed so far.
\<close>

record ('w, 'o, 'r) world =
  heap :: "nat \<Rightarrow> 'w"
  training :: bool
  rng :: 'r
  opt_state :: 'o
  opt_lr :: real
  files :: "string \<Rightarrow> (string \<times> 'w) list option"
  graphs :: "string \<Rightarrow> (real list \<times> real list) option"
  logged :: "log_line list"

text \<open>
  The network object: its named parameter tensors (by address) and its forward function
  in training mode (which draws dropout masks from the generator) and in evaluation mode.
  Both return the pair \<^verbatim>\<open>(outputs, pred)\<close> of logits and probabilities.
\<close>

record ('w, 'r) module =
  params :: "(string \<times> nat) list"
  fwd_train :: "(string \<times> 'w) list \<Rightarrow> 'r \<Rightarrow> nat list list \<Rightarrow> (rmatrix \<times> rmatrix) \<times> 'r"
  fwd_eval :: "(string \<times> 'w) list \<Rightarrow> nat list list \<Rightarrow> rmatrix \<times> rmatrix"

definition param_values :: "('w, 'r) module \<Rightarrow> (nat \<Rightarrow> 'w) \<Rightarrow> (string \<times> 'w) list" where
  "param_values m h = map (\<lambda>(n, a). (n, h a)) (params m)"

text \<open>
  Modelled from the spec: the forward pass of \<^verbatim>\<open>models.BiLSTM\<close>
  (\<^verbatim>\<open>models.py\<close> is not among the sources). Dropout is active only during
  training, so only a forward pass in training mode reads and advances the generator.
\<close>

definition forward ::
  "('w, 'r) module \<Rightarrow> ('w, 'o, 'r) world \<Rightarrow> nat list list \<Rightarrow> (rmatrix \<times> rmatrix) \<times> ('w, 'o, 'r) world" where
  "forward m w x =
     (if training w
      then (let (out, r') = fwd_train m (param_values m (heap w)) (rng w) x
            in (out, w\<lparr>rng := r'\<rparr>))
      else (fwd_eval m (param_values m (heap w)) x, w))"

text \<open>
  \<^verbatim>\<open>model.state_dict()\<close> builds a new dictionary whose tensors share their storage
  with the live parameters: it holds the parameters' addresses, not copies of their values.
  \<^verbatim>\<open>load_state_dict\<close> copies, name by name, the value of the dictionary's tensor into
  the parameter; \<^verbatim>\<open>torch.save\<close> serialises the values as they are at the call.
\<close>

definition state_dict :: "('w, 'r) module \<Rightarrow> (string \<times> nat) list" where
  "state_dict m = params m"

definition load_state_dict ::
  "('w, 'r) module \<Rightarrow> (string \<times> nat) list \<Rightarrow> ('w, 'o, 'r) world \<Rightarrow> ('w, 'o, 'r) world" where
  "load_state_dict m sd w =
     w\<lparr>heap := fold (\<lambda>(n, a) h. case map_of sd n of Some b \<Rightarrow> h(a := h b) | None \<Rightarrow> h)
                   (params m) (heap w)\<rparr>"

definition write_values :: "(string \<times> nat) list \<Rightarrow> (string \<times> 'w) list \<Rightarrow> (nat \<Rightarrow> 'w) \<Rightarrow> (nat \<Rightarrow> 'w)" where
  "write_values ps vals h =
     fold (\<lambda>(n, a) h'. case map_of vals n of Some v \<Rightarrow> h'(a := v) | None \<Rightarrow> h') ps h"

definition torch_save ::
  "(string \<times> nat) list \<Rightarrow> string \<Rightarrow> ('w, 'o, 'r) world \<Rightarrow> ('w, 'o, 'r) world" where
  "torch_save sd path w = w\<lparr>files := (files w)(path \<mapsto> map (\<lambda>(n, a). (n, heap w a)) sd)\<rparr>"

definition checkpoint_path :: "string \<Rightarrow> string" where
  "checkpoint_path model_name = ''./models/'' @ model_name @ ''.pt''"

text \<open>
  The optimizer object: \<^verbatim>\<open>loss.backward(retain_graph=True); optimizer.step()\<close>
  computes the gradients of the batch's loss (from the parameter values, the dropout masks
  drawn in the forward pass and the batch) and overwrites every parameter tensor in place.
\<close>

record ('w, 'o, 'r) optimizer =
  opt_update :: "real \<Rightarrow> 'o \<Rightarrow> (string \<times> 'w) list \<Rightarrow> 'r \<Rightarrow> batch \<Rightarrow> 'o \<times> (string \<times> 'w) list"

definition backward_and_step ::
  "('w, 'o, 'r) optimizer \<Rightarrow> ('w, 'r) module \<Rightarrow> (string \<times> 'w) list \<Rightarrow> 'r \<Rightarrow> batch \<Rightarrow>
     ('w, 'o, 'r) world \<Rightarrow> ('w, 'o, 'r) world" where
  "backward_and_step opt m vals r b w =
     (let (st, new) = opt_update opt (opt_lr w) (opt_state w) vals r b
      in w\<lparr>heap := write_values (params m) new (heap w), opt_state := st\<rparr>)"

section \<open>Thresholding and metrics\<close>

text \<open>\<^verbatim>\<open>torch.where(pred > t, ones, zeros)\<close>; the script calls it with 0.4.\<close>

definition where_gt :: "real \<Rightarrow> rmatrix \<Rightarrow> matrix" where
  "where_gt t pred = map (map (\<lambda>p. if p > t then 1 else 0)) pred"

definition positives :: "matrix \<Rightarrow> nat" where
  "positives y = length (filter (\<lambda>v. v = 1) (concat y))"

text \<open>
  The metrics of scikit-learn on multi-label indicator matrices:
  \<^verbatim>\<open>accuracy_score\<close> is the share of rows predicted exactly, and
  \<^verbatim>\<open>precision_recall_fscore_support(average="micro")\<close> sums true positives,
  predicted positives and actual positives over all cells; a ratio with denominator zero
  is reported as 0. (On an empty matrix scikit-learn raises; a pass over a non-empty
  dataset never produces one, and the model returns 0 there.)
\<close>

definition accuracy_score :: "matrix \<Rightarrow> matrix \<Rightarrow> real" where
  "accuracy_score yt yp =
     (if yt = [] then 0
      else real (length (filter (\<lambda>(t, p). t = p) (zip yt yp))) / real (length yt))"

definition true_positives :: "matrix \<Rightarrow> matrix \<Rightarrow> nat" where
  "true_positives yt yp =
     length (filter (\<lambda>(t, p). t = 1 \<and> p = 1) (concat (map2 zip yt yp)))"

definition prf_divide :: "real \<Rightarrow> real \<Rightarrow> real" where
  "prf_divide n d = (if d = 0 then 0 else n / d)"

definition precision_recall_fscore_micro :: "matrix \<Rightarrow> matrix \<Rightarrow> real \<times> real \<times> real" where
  "precision_recall_fscore_micro yt yp =
     (let tp = real (true_positives yt yp);
          precision = prf_divide tp (real (positives yp));
          recall = prf_divide tp (real (positives yt));
          f1 = prf_divide (2 * precision * recall) (precision + recall)
      in (precision, recall, f1))"

section \<open>The training loop\<close>

text \<open>The accumulators of one phase of one epoch (\<^verbatim>\<open>running_corrects\<close> is never read).\<close>

record accum =
  running_loss :: real
  y_true :: matrix
  y_pred :: matrix

definition init_accum :: accum where
  "init_accum = \<lparr>running_loss = 0, y_true = [], y_pred = []\<rparr>"

text \<open>
  The body of the loop over \<^verbatim>\<open>enumerate(dataloaders[phase])\<close>, lines 76 to 110 of
  \<^verbatim>\<open>main.py\<close>. \<open>ds\<close> is \<^verbatim>\<open>dataset_sizes[phase]\<close> and \<open>nb\<close> is
  \<^verbatim>\<open>len(dataloaders[phase])\<close>.
\<close>

definition batch_step ::
  "('w, 'r) module \<Rightarrow> (rmatrix \<Rightarrow> matrix \<Rightarrow> real) \<Rightarrow> ('w, 'o, 'r) optimizer \<Rightarrow> phase \<Rightarrow> nat \<Rightarrow> nat \<Rightarrow>
     nat \<Rightarrow> nat \<Rightarrow> batch \<Rightarrow> accum \<times> ('w, 'o, 'r) world \<Rightarrow> accum \<times> ('w, 'o, 'r) world" where
  "batch_step m criterion opt ph epoch ds nb batch_idx b s =
     (let (a, w) = s;
          targets = stack_dim1 (labels b);
          vals = param_values m (heap w);
          r = rng w;
          ((outputs, pred), w1) = forward m w (inputs b);
          predicted = where_gt (4 / 10) pred;
          loss = criterion outputs targets;
          w2 = (if ph = Train then backward_and_step opt m vals r b w1 else w1);
          a' = \<lparr>running_loss = running_loss a + loss * real (size0 (inputs b)),
                y_true = y_true a @ targets,
                y_pred = y_pred a @ predicted\<rparr>;
          w3 = (if ph = Train \<and> batch_idx mod 50 = 0
                then w2\<lparr>logged := logged w2 @
                       [TrainProgress (epoch + 1) ((batch_idx + 1) * length (labels b)) ds
                          (100 * real (batch_idx + 1) / real nb) loss]\<rparr>
                else w2)
      in (a', w3))"

fun batch_loop ::
  "('w, 'r) module \<Rightarrow> (rmatrix \<Rightarrow> matrix \<Rightarrow> real) \<Rightarrow> ('w, 'o, 'r) optimizer \<Rightarrow> phase \<Rightarrow> nat \<Rightarrow> nat \<Rightarrow>
     nat \<Rightarrow> nat \<Rightarrow> batch list \<Rightarrow> accum \<times> ('w, 'o, 'r) world \<Rightarrow> accum \<times> ('w, 'o, 'r) world" where
  "batch_loop m criterion opt ph epoch ds nb batch_idx [] s = s"
| "batch_loop m criterion opt ph epoch ds nb batch_idx (b # bs) s =
     batch_loop m criterion opt ph epoch ds nb (Suc batch_idx) bs
       (batch_step m criterion opt ph epoch ds nb batch_idx b s)"

text \<open>What \<^verbatim>\<open>train_model\<close> keeps across epochs.\<close>

record train_state =
  best_model_wts :: "(string \<times> nat) list"
  best_acc :: real
  best_recall :: real
  best_precision :: real
  best_f1 :: real
  model_loss :: "phase \<Rightarrow> real list"

text \<open>
  Lines 122 to 128: the best-checkpoint update at the end of a phase, given the metrics
  of the phase.
\<close>

definition update_best ::
  "('w, 'r) module \<Rightarrow> string \<Rightarrow> phase \<Rightarrow> real \<Rightarrow> real \<Rightarrow> real \<Rightarrow> real \<Rightarrow>
     train_state \<times> ('w, 'o, 'r) world \<Rightarrow> train_state \<times> ('w, 'o, 'r) world" where
  "update_best m model_name ph epoch_acc epoch_precision epoch_recall epoch_f1 s =
     (let (st, w) = s
      in if ph = Val \<and> epoch_f1 > best_f1 st
         then (st\<lparr>best_model_wts := state_dict m,
                   best_acc := epoch_acc,
                   best_recall := epoch_recall,
                   best_precision := epoch_precision,
                   best_f1 := epoch_f1\<rparr>,
               torch_save (state_dict m) (checkpoint_path model_name) w)
         else (st, w))"

text \<open>One phase of one epoch, lines 63 to 128. Dividing by an empty dataset's size raises.\<close>

definition run_phase ::
  "('w, 'r) module \<Rightarrow> string \<Rightarrow> (phase \<Rightarrow> dataloader) \<Rightarrow> (rmatrix \<Rightarrow> matrix \<Rightarrow> real) \<Rightarrow>
     ('w, 'o, 'r) optimizer \<Rightarrow> nat \<Rightarrow> phase \<Rightarrow> train_state \<times> ('w, 'o, 'r) world \<Rightarrow>
     error + train_state \<times> ('w, 'o, 'r) world" where
  "run_phase m model_name dataloaders criterion opt epoch ph s =
     (let (st, w) = s;
          w1 = w\<lparr>training := (ph = Train)\<rparr>;
          ds = dataset_len (dataloaders ph);
          bs = batches (dataloaders ph) epoch;
          (a, w2) = batch_loop m criterion opt ph epoch ds (length bs) 0 bs
                      (init_accum, w1)
      in if ds = 0 then Inl ZeroDivisionError
         else
           (let epoch_loss = running_loss a / real ds;
                epoch_acc = accuracy_score (y_true a) (y_pred a);
                (epoch_precision, epoch_recall, epoch_f1) =
                   precision_recall_fscore_micro (y_true a) (y_pred a);
                st1 = st\<lparr>model_loss := (model_loss st)(ph := (model_loss st ph)[epoch := epoch_loss])\<rparr>;
                w3 = w2\<lparr>logged := logged w2 @
                       [PhaseSummary ph epoch_loss epoch_acc epoch_precision epoch_recall epoch_f1]\<rparr>
            in Inr (update_best m model_name ph epoch_acc epoch_precision epoch_recall epoch_f1
                      (st1, w3))))"

text \<open>The body of the loop over epochs: the two log lines, then train, then val.\<close>

definition run_epoch ::
  "('w, 'r) module \<Rightarrow> string \<Rightarrow> (phase \<Rightarrow> dataloader) \<Rightarrow> (rmatrix \<Rightarrow> matrix \<Rightarrow> real) \<Rightarrow>
     ('w, 'o, 'r) optimizer \<Rightarrow> nat \<Rightarrow> nat \<Rightarrow> train_state \<times> ('w, 'o, 'r) world \<Rightarrow>
     error + train_state \<times> ('w, 'o, 'r) world" where
  "run_epoch m model_name dataloaders criterion opt num_epochs epoch s =
     (let (st, w) = s;
          w1 = w\<lparr>logged := logged w @ [EpochHeader (epoch + 1) num_epochs, Dashes]\<rparr>
      in case run_phase m model_name dataloaders criterion opt epoch Train (st, w1) of
           Inl e \<Rightarrow> Inl e
         | Inr s1 \<Rightarrow> run_phase m model_name dataloaders criterion opt epoch Val s1)"

fun epochs_loop ::
  "('w, 'r) module \<Rightarrow> string \<Rightarrow> (phase \<Rightarrow> dataloader) \<Rightarrow> (rmatrix \<Rightarrow> matrix \<Rightarrow> real) \<Rightarrow>
     ('w, 'o, 'r) optimizer \<Rightarrow> nat \<Rightarrow> nat list \<Rightarrow> train_state \<times> ('w, 'o, 'r) world \<Rightarrow>
     error + train_state \<times> ('w, 'o, 'r) world" where
  "epochs_loop m model_name dataloaders criterion opt num_epochs [] s = Inr s"
| "epochs_loop m model_name dataloaders criterion opt num_epochs (epoch # es) s =
     (case run_epoch m model_name dataloaders criterion opt num_epochs epoch s of
        Inl e \<Rightarrow> Inl e
      | Inr s1 \<Rightarrow> epochs_loop m model_name dataloaders criterion opt num_epochs es s1)"

text \<open>
  The learning-rate scheduler object built by \<^verbatim>\<open>lr_scheduler.StepLR\<close>. Its
  \<^verbatim>\<open>step()\<close> would set the optimizer's rate to \<open>steplr_rate\<close> of the epochs
  counted so far; \<^verbatim>\<open>train_model\<close> receives the object and its only call of
  \<^verbatim>\<open>scheduler.step()\<close> is commented out (line 64).
\<close>

record scheduler =
  base_lr :: real
  step_size :: int
  sched_gamma :: real

definition steplr_rate :: "scheduler \<Rightarrow> nat \<Rightarrow> real" where
  "steplr_rate sch e = base_lr sch * sched_gamma sch ^ nat (int e div step_size sch)"

definition init_train_state :: "('w, 'r) module \<Rightarrow> nat \<Rightarrow> train_state" where
  "init_train_state m num_epochs =
     \<lparr>best_model_wts = state_dict m, best_acc = 0, best_recall = 0, best_precision = 0,
      best_f1 = 0, model_loss = (\<lambda>x. replicate num_epochs 0)\<rparr>"

text \<open>
  \<^verbatim>\<open>train_model\<close>, lines 41 to 141. The elapsed time is not part of the model. The
  result is the model (its parameters are in the returned world), the loss history and the
  best precision, recall and F1.
\<close>

definition train_model ::
  "('w, 'r) module \<Rightarrow> string \<Rightarrow> (phase \<Rightarrow> dataloader) \<Rightarrow> (rmatrix \<Rightarrow> matrix \<Rightarrow> real) \<Rightarrow>
     ('w, 'o, 'r) optimizer \<Rightarrow> scheduler \<Rightarrow> 'args \<Rightarrow> nat \<Rightarrow> ('w, 'o, 'r) world \<Rightarrow>
     error + ((phase \<Rightarrow> real list) \<times> real \<times> real \<times> real) \<times> ('w, 'o, 'r) world" where
  "train_model m model_name dataloaders criterion opt sch args num_epochs w =
     (case epochs_loop m model_name dataloaders criterion opt num_epochs [0..<num_epochs]
             (init_train_state m num_epochs, w) of
        Inl e \<Rightarrow> Inl e
      | Inr (st, w1) \<Rightarrow>
          (let w2 = w1\<lparr>logged := logged w1 @
                      [TrainingCompleted,
                       BestOverall ''Acc'' (best_acc st),
                       BestOverall ''precision'' (best_precision st),
                       BestOverall ''recall'' (best_recall st),
                       BestOverall ''f1-score'' (best_f1 st)]\<rparr>;
               w3 = load_state_dict m (best_model_wts st) w2
           in Inr ((model_loss st, best_precision st, best_recall st, best_f1 st), w3)))"

section \<open>The evaluation routine\<close>

definition test_step ::
  "('w, 'r) module \<Rightarrow> batch \<Rightarrow> accum \<times> ('w, 'o, 'r) world \<Rightarrow> accum \<times> ('w, 'o, 'r) world" where
  "test_step m b s =
     (let (a, w) = s;
          targets = stack_dim1 (labels b);
          ((outputs, pred), w1) = forward m w (inputs b);
          predicted = where_gt (4 / 10) pred
      in (a\<lparr>y_true := y_true a @ targets, y_pred := y_pred a @ predicted\<rparr>, w1))"

fun test_loop ::
  "('w, 'r) module \<Rightarrow> batch list \<Rightarrow> accum \<times> ('w, 'o, 'r) world \<Rightarrow> accum \<times> ('w, 'o, 'r) world" where
  "test_loop m [] s = s"
| "test_loop m (b # bs) s = test_loop m bs (test_step m b s)"

text \<open>\<^verbatim>\<open>test_model\<close>, lines 144 to 170: returns \<^verbatim>\<open>(y_true, y_pred)\<close> and prints the metrics.\<close>

definition test_model ::
  "('w, 'r) module \<Rightarrow> batch list \<Rightarrow> ('w, 'o, 'r) world \<Rightarrow> (matrix \<times> matrix) \<times> ('w, 'o, 'r) world" where
  "test_model m test_loader w =
     (let w1 = w\<lparr>training := False\<rparr>;
          (a, w2) = test_loop m test_loader (init_accum, w1);
          test_acc = accuracy_score (y_true a) (y_pred a);
          (test_precision, test_recall, test_f1) = precision_recall_fscore_micro (y_true a) (y_pred a);
          w3 = w2\<lparr>logged := logged w2 @ [TestSummary test_acc test_precision test_recall test_f1]\<rparr>
      in ((y_true a, y_pred a), w3))"

section \<open>The entry point\<close>

text \<open>The options of the argument parser, lines 262 to 286.\<close>

record args =
  batch_size :: int
  test :: bool
  epochs :: int
  lr :: real
  weight_decay :: real
  dropout :: real
  momentum :: real
  step :: int
  gamma :: real
  hidden_size :: int
  num_layers :: int
  attention :: bool

text \<open>
  The collaborators \<^verbatim>\<open>main\<close> calls, each with the arguments the call passes:
  the constructor of the network (hidden size, dropout rate, attention flag; it also gives
  the initial parameter values), the Adam optimizer (betas and epsilon; the learning rate
  is kept in the world), the loss, and the bucket iterators over the three corpus files
  (batch size).
\<close>

record ('w, 'o, 'r) env =
  BiLSTM :: "int \<Rightarrow> real \<Rightarrow> bool \<Rightarrow> ('w, 'r) module \<times> (string \<times> 'w) list"
  Adam :: "real \<times> real \<Rightarrow> real \<Rightarrow> ('w, 'o, 'r) optimizer \<times> 'o"
  BCEWithLogitsLoss :: "rmatrix \<Rightarrow> matrix \<Rightarrow> real"
  train_val_iters :: "int \<Rightarrow> phase \<Rightarrow> dataloader"
  test_iter :: "int \<Rightarrow> batch list"

text \<open>\<^verbatim>\<open>visualize.plot_loss\<close>: the two loss curves go to one image file.\<close>

definition plot_loss :: "(phase \<Rightarrow> real list) \<Rightarrow> string \<Rightarrow> ('w, 'o, 'r) world \<Rightarrow> ('w, 'o, 'r) world" where
  "plot_loss losses model_name w =
     w\<lparr>graphs := (graphs w)(''./graphs/'' @ model_name @ ''_epoch_loss'' \<mapsto> (losses Train, losses Val))\<rparr>"

definition say :: "string \<Rightarrow> ('w, 'o, 'r) world \<Rightarrow> ('w, 'o, 'r) world" where
  "say msg w = w\<lparr>logged := logged w @ [Message msg]\<rparr>"

text \<open>
  \<^verbatim>\<open>main\<close>, lines 173 to 258. \<^verbatim>\<open>torch.load\<close> of a checkpoint that was never
  written raises.
\<close>

definition main :: "('w, 'o, 'r) env \<Rightarrow> args \<Rightarrow> ('w, 'o, 'r) world \<Rightarrow> error + ('w, 'o, 'r) world" where
  "main env a w0 =
     (let model_name = (if \<not> attention a then ''BiLSTMNetwork'' else ''BiLSTM_AttentionNetwork'');
          (model, init) = BiLSTM env (hidden_size a) (dropout a) (attention a);
          w1 = w0\<lparr>heap := write_values (params model) init (heap w0)\<rparr>;
          criterion = BCEWithLogitsLoss env;
          (optimizer, ost) = Adam env (1 / 100, 999 / 1000) (1 / 100000);
          w2 = w1\<lparr>opt_state := ost, opt_lr := lr a\<rparr>;
          exp_lr_scheduler = \<lparr>base_lr = lr a, step_size = step a, sched_gamma = gamma a\<rparr>
      in if \<not> test a
         then
           (let dataloaders = train_val_iters env (batch_size a);
                w3 = say ''Training...'' w2
            in case train_model model model_name dataloaders criterion optimizer
                      exp_lr_scheduler a (nat (epochs a)) w3 of
                 Inl e \<Rightarrow> Inl e
               | Inr ((losses, precision, recall, f1_score), w4) \<Rightarrow>
                   Inr (say ''Completed Successfully!'' (plot_loss losses model_name w4)))
         else
           (let loader = test_iter env (batch_size a);
                w3 = say ''Testing...'' w2
            in case files w3 (checkpoint_path model_name) of
                 None \<Rightarrow> Inl FileNotFoundError
               | Some vals \<Rightarrow>
                   (let w4 = w3\<lparr>heap := write_values (params model) vals (heap w3)\<rparr>;
                        (ys, w5) = test_model model loader w4
                    in Inr (say ''Completed Successfully!'' w5))))"

section \<open>A small run\<close>

text \<open>
  A concrete run, used to evaluate the loop: the corpus has two examples of three tokens
  each (start marker, one word, end marker), so its one batch is a token tensor of three
  rows and two columns with seven label columns of two entries. The network has a single
  integer parameter \<open>w\<close>; it classifies both examples correctly when \<open>w\<close> is 1 and
  predicts nothing otherwise. Every optimizer step adds 1 to the parameter, and the loss
  of every batch is 1.
\<close>

definition toy_batch :: batch where
  "toy_batch =
     \<lparr>inputs = [[2, 2], [5, 6], [3, 3]],
      labels = [[1, 0], [0, 1], [0, 0], [0, 0], [0, 0], [0, 0], [0, 0]]\<rparr>"

definition toy_net :: "(string \<times> int) list \<Rightarrow> rmatrix \<times> rmatrix" where
  "toy_net vals =
     (replicate 2 (replicate 7 0),
      if map_of vals ''w'' = Some 1
      then [[9 / 10, 1 / 10, 1 / 10, 1 / 10, 1 / 10, 1 / 10, 1 / 10],
            [1 / 10, 9 / 10, 1 / 10, 1 / 10, 1 / 10, 1 / 10, 1 / 10]]
      else replicate 2 (replicate 7 (1 / 10)))"

definition toy_module :: "(int, unit) module" where
  "toy_module =
     \<lparr>params = [(''w'', 0)],
      fwd_train = (\<lambda>vals r x. (toy_net vals, r)),
      fwd_eval = (\<lambda>vals x. toy_net vals)\<rparr>"

definition toy_optimizer :: "(int, unit, unit) optimizer" where
  "toy_optimizer = \<lparr>opt_update = (\<lambda>rate st vals r b. (st, map (\<lambda>(n, v). (n, v + 1)) vals))\<rparr>"

definition toy_criterion :: "rmatrix \<Rightarrow> matrix \<Rightarrow> real" where
  "toy_criterion outputs targets = 1"

definition toy_loaders :: "phase \<Rightarrow> dataloader" where
  "toy_loaders ph = \<lparr>dataset_len = 2, batches = (\<lambda>e. [toy_batch])\<rparr>"

definition toy_world :: "(int, unit, unit) world" where
  "toy_world =
     \<lparr>heap = (\<lambda>a. 0), training = False, rng = (), opt_state = (), opt_lr = 1 / 1000,
      files = (\<lambda>p. None), graphs = (\<lambda>p. None), logged = []\<rparr>"

definition toy_scheduler :: scheduler where
  "toy_scheduler = \<lparr>base_lr = 1 / 1000, step_size = 1, sched_gamma = 1 / 10\<rparr>"

definition toy_run :: "error + ((phase \<Rightarrow> real list) \<times> real \<times> real \<times> real) \<times> (int, unit, unit) world" where
  "toy_run =
     train_model toy_module ''BiLSTMNetwork'' toy_loaders toy_criterion toy_optimizer
       toy_scheduler () 2 toy_world"

definition toy_epochs :: "nat list \<Rightarrow> error + train_state \<times> (int, unit, unit) world" where
  "toy_epochs es =
     epochs_loop toy_module ''BiLSTMNetwork'' toy_loaders toy_criterion toy_optimizer 2 es
       (init_train_state toy_module 2, toy_world)"

definition toy_env :: "(int, unit, unit) env" where
  "toy_env =
     \<lparr>BiLSTM = (\<lambda>hidden_dim rate att. (toy_module, [(''w'', 0)])),
      Adam = (\<lambda>betas eps. (toy_optimizer, ())),
      BCEWithLogitsLoss = toy_criterion,
      train_val_iters = (\<lambda>n. toy_loaders),
      test_iter = (\<lambda>n. [toy_batch])\<rparr>"

text \<open>The defaults of the parser, but two epochs and a decay period of one epoch.\<close>

definition toy_args :: args where
  "toy_args =
     \<lparr>batch_size = 64, test = False, epochs = 2, lr = 1 / 1000, weight_decay = 1 / 1000,
      dropout = 0, momentum = 1 / 2, step = 1, gamma = 1 / 10, hidden_size = 128,
      num_layers = 1, attention = False\<rparr>"

text \<open>The world of the small run once the parameter is 1, and a validation phase there.\<close>

definition toy_good_world :: "(int, unit, unit) world" where
  "toy_good_world = toy_world\<lparr>heap := (\<lambda>a. 1)\<rparr>"

definition toy_val_phase :: "error + train_state \<times> (int, unit, unit) world" where
  "toy_val_phase =
     run_phase toy_module ''BiLSTMNetwork'' toy_loaders toy_criterion toy_optimizer 0 Val
       (init_train_state toy_module 1, toy_good_world)"

definition toy_second_epoch :: "error + train_state \<times> (int, unit, unit) world" where
  "toy_second_epoch =
     epochs_loop toy_module ''BiLSTMNetwork'' toy_loaders toy_criterion toy_optimizer 2 [1]
       (fst (projr (toy_epochs [0])), snd (projr (toy_epochs [0])))"

definition toy_main :: "error + (int, unit, unit) world" where
  "toy_main = main toy_env toy_args toy_world"

section \<open>Metrics of a phase\<close>

text \<open>
  The accumulators at the end of the batch loop of a phase, and the metrics
  \<^verbatim>\<open>train_model\<close> computes from them (lines 113 and 114).
\<close>

definition phase_accum ::
  "('w, 'r) module \<Rightarrow> (rmatrix \<Rightarrow> matrix \<Rightarrow> real) \<Rightarrow> ('w, 'o, 'r) optimizer \<Rightarrow> (phase \<Rightarrow> dataloader) \<Rightarrow>
     nat \<Rightarrow> phase \<Rightarrow> ('w, 'o, 'r) world \<Rightarrow> accum \<times> ('w, 'o, 'r) world" where
  "phase_accum m criterion opt dataloaders epoch ph w =
     batch_loop m criterion opt ph epoch (dataset_len (dataloaders ph))
       (length (batches (dataloaders ph) epoch)) 0 (batches (dataloaders ph) epoch)
       (init_accum, w\<lparr>training := (ph = Train)\<rparr>)"

definition metrics_of :: "accum \<Rightarrow> real \<times> real \<times> real \<times> real" where
  "metrics_of a =
     (accuracy_score (y_true a) (y_pred a), precision_recall_fscore_micro (y_true a) (y_pred a))"

definition f1_of :: "accum \<Rightarrow> real" where
  "f1_of a = snd (snd (snd (metrics_of a)))"

section \<open>Frame lemmas\<close>

lemma forward_frame:
  "heap (snd (forward m w x)) = heap w"
  "opt_lr (snd (forward m w x)) = opt_lr w"
  "opt_state (snd (forward m w x)) = opt_state w"
  "files (snd (forward m w x)) = files w"
  "graphs (snd (forward m w x)) = graphs w"
  "logged (snd (forward m w x)) = logged w"
  "training (snd (forward m w x)) = training w"
  by (simp_all add: forward_def split: prod.splits)

lemma forward_eval: "\<not> training w \<Longrightarrow> forward m w x = (fwd_eval m (param_values m (heap w)) x, w)"
  by (simp add: forward_def)

lemma backward_and_step_logged: "logged (backward_and_step opt m vals r b w) = logged w"
  by (simp add: backward_and_step_def split_beta)

lemma batch_step_frame:
  "opt_lr (snd (batch_step m crit opt ph e ds nb i b s)) = opt_lr (snd s)"
  "files (snd (batch_step m crit opt ph e ds nb i b s)) = files (snd s)"
  "graphs (snd (batch_step m crit opt ph e ds nb i b s)) = graphs (snd s)"
  "training (snd (batch_step m crit opt ph e ds nb i b s)) = training (snd s)"
  using forward_frame [of m "snd s" "inputs b"]
  by (auto simp add: batch_step_def backward_and_step_def Let_def split: prod.splits)

lemma batch_step_heap_val:
  "ph \<noteq> Train \<Longrightarrow> heap (snd (batch_step m crit opt ph e ds nb i b s)) = heap (snd s)"
  using forward_frame [of m "snd s" "inputs b"]
  by (auto simp add: batch_step_def Let_def split: prod.splits)

lemma batch_loop_frame:
  "opt_lr (snd (batch_loop m crit opt ph e ds nb i bs s)) = opt_lr (snd s) \<and>
   files (snd (batch_loop m crit opt ph e ds nb i bs s)) = files (snd s) \<and>
   graphs (snd (batch_loop m crit opt ph e ds nb i bs s)) = graphs (snd s) \<and>
   training (snd (batch_loop m crit opt ph e ds nb i bs s)) = training (snd s)"
  by (induction bs arbitrary: i s) (simp_all add: batch_step_frame)

lemma batch_loop_heap_val:
  "ph \<noteq> Train \<Longrightarrow> heap (snd (batch_loop m crit opt ph e ds nb i bs s)) = heap (snd s)"
  by (induction bs arbitrary: i s) (simp_all add: batch_step_heap_val)

lemma torch_save_frame:
  "opt_lr (torch_save sd p w) = opt_lr w"
  "heap (torch_save sd p w) = heap w"
  "files (torch_save sd p w) = (files w)(p \<mapsto> map (\<lambda>(n, a). (n, heap w a)) sd)"
  by (simp_all add: torch_save_def)

lemma not_isl_collapse: "\<not> isl r \<Longrightarrow> r = Inr (projr r)"
  by (cases r) simp_all

lemma not_isl_collapse_pair: "\<not> isl r \<Longrightarrow> r = Inr (fst (projr r), snd (projr r))"
  by (cases r) simp_all

section \<open>The decision threshold\<close>

lemma batch_step_y_pred:
  "y_pred (fst (batch_step m crit opt ph e ds nb k b (a, w))) =
     y_pred a @ where_gt (4 / 10) (snd (fst (forward m w (inputs b))))"
  by (simp add: batch_step_def Let_def split: prod.splits)

lemma test_step_y_pred:
  "y_pred (fst (test_step m b (a, w))) =
     y_pred a @ where_gt (4 / 10) (snd (fst (forward m w (inputs b))))"
  by (simp add: test_step_def Let_def split: prod.splits)

lemma where_gt_nth:
  "i < length pred \<Longrightarrow> c < length (pred ! i) \<Longrightarrow>
     where_gt t pred ! i ! c = (if pred ! i ! c > t then 1 else 0)"
  by (simp add: where_gt_def)

text \<open>
  Claim C3: for every example and class the predicted label is positive exactly when the
  probability is strictly greater than 0.4, and a probability of exactly 0.4 gives a
  negative prediction, in the training and validation loop and in the evaluation routine.
  The rows a batch adds to \<open>y_pred\<close> are read against the probabilities of its forward
  pass.
\<close>

theorem decision_rule_strict_threshold:
  assumes "i < length (snd (fst (forward m w (inputs b))))"
      and "c < length (snd (fst (forward m w (inputs b))) ! i)"
  shows "(drop (length (y_pred a)) (y_pred (fst (batch_step m crit opt ph e ds nb k b (a, w)))) ! i ! c = 1
            \<longleftrightarrow> snd (fst (forward m w (inputs b))) ! i ! c > 4 / 10) \<and>
         (drop (length (y_pred a)) (y_pred (fst (batch_step m crit opt ph e ds nb k b (a, w)))) ! i ! c = 0
            \<longleftrightarrow> snd (fst (forward m w (inputs b))) ! i ! c \<le> 4 / 10) \<and>
         (drop (length (y_pred a)) (y_pred (fst (test_step m b (a, w)))) ! i ! c = 1
            \<longleftrightarrow> snd (fst (forward m w (inputs b))) ! i ! c > 4 / 10) \<and>
         (drop (length (y_pred a)) (y_pred (fst (test_step m b (a, w)))) ! i ! c = 0
            \<longleftrightarrow> snd (fst (forward m w (inputs b))) ! i ! c \<le> 4 / 10) \<and>
         where_gt (4 / 10) [[4 / 10]] = [[0]]"
  using assms
  by (simp add: batch_step_y_pred test_step_y_pred where_gt_nth) (simp add: where_gt_def)

theorem decision_rule_strict_threshold_witness:
  "0 < length (snd (fst (forward toy_module toy_good_world (inputs toy_batch)))) \<and>
   0 < length (snd (fst (forward toy_module toy_good_world (inputs toy_batch))) ! 0) \<and>
   (drop (length (y_pred init_accum))
      (y_pred (fst (batch_step toy_module toy_criterion toy_optimizer Val 0 2 1 0 toy_batch
                      (init_accum, toy_good_world)))) ! 0 ! 0 = 1
      \<longleftrightarrow> snd (fst (forward toy_module toy_good_world (inputs toy_batch))) ! 0 ! 0 > 4 / 10) \<and>
   drop (length (y_pred init_accum))
      (y_pred (fst (test_step toy_module toy_batch (init_accum, toy_good_world)))) ! 0 ! 0 = 1"
proof -
  have h1: "0 < length (snd (fst (forward toy_module toy_good_world (inputs toy_batch))))"
    by code_simp
  have h2: "0 < length (snd (fst (forward toy_module toy_good_world (inputs toy_batch))) ! 0)"
    by code_simp
  have p: "snd (fst (forward toy_module toy_good_world (inputs toy_batch))) ! 0 ! 0 > 4 / 10"
    by code_simp
  note inst = decision_rule_strict_threshold [OF h1 h2, of init_accum toy_criterion toy_optimizer Val 0 2 1 0]
  from inst p have t: "drop (length (y_pred init_accum))
      (y_pred (fst (test_step toy_module toy_batch (init_accum, toy_good_world)))) ! 0 ! 0 = 1"
    by blast
  from inst have b: "drop (length (y_pred init_accum))
      (y_pred (fst (batch_step toy_module toy_criterion toy_optimizer Val 0 2 1 0 toy_batch
                      (init_accum, toy_good_world)))) ! 0 ! 0 = 1
      \<longleftrightarrow> snd (fst (forward toy_module toy_good_world (inputs toy_batch))) ! 0 ! 0 > 4 / 10"
    by blast
  from h1 h2 b t show ?thesis by blast
qed

lemma positives_where_gt:
  "positives (where_gt t pred) = length (filter (\<lambda>p. p > t) (concat pred))"
proof (induction pred)
  case Nil
  show ?case by (simp add: positives_def where_gt_def)
next
  case (Cons row pred)
  have "length (filter (\<lambda>v. v = 1) (map (\<lambda>p. if p > t then 1 else (0::nat)) row)) =
        length (filter (\<lambda>p. p > t) row)"
    by (induction row) simp_all
  with Cons show ?case
    by (simp add: positives_def where_gt_def del: filter_map)
qed

lemma filter_gt_mono:
  "t1 \<le> t2 \<Longrightarrow> length (filter (\<lambda>p. p > t2) xs) \<le> length (filter (\<lambda>p. p > (t1::real)) xs)"
  by (induction xs) auto

text \<open>
  Claim C7: for fixed probabilities and thresholds \<open>t1 \<le> t2\<close>, the strict rule at
  \<open>t2\<close> gives at most as many positive predictions as at \<open>t1\<close>.
\<close>

theorem threshold_monotone:
  assumes "t1 \<le> t2"
  shows "positives (where_gt t2 pred) \<le> positives (where_gt t1 pred)"
  using assms by (simp add: positives_where_gt filter_gt_mono)

theorem threshold_monotone_witness:
  "(4 / 10 :: real) \<le> 1 / 2 \<and>
   positives (where_gt (1 / 2) [[45 / 100, 3 / 10]]) \<le> positives (where_gt (4 / 10) [[45 / 100, 3 / 10]])"
  using threshold_monotone [of "4 / 10" "1 / 2" "[[45 / 100, 3 / 10]]"] by simp

section \<open>Loss accumulation and progress lines\<close>

lemma batch_step_running_loss:
  "running_loss (fst (batch_step m crit opt ph e ds nb k b (a, w))) =
     running_loss a +
     crit (fst (fst (forward m w (inputs b)))) (stack_dim1 (labels b)) * real (length (inputs b))"
  by (simp add: batch_step_def Let_def size0_def split_beta)

lemma batch_loop_loss_nonneg:
  assumes "\<And>out t. 0 \<le> crit out t" and "0 \<le> running_loss (fst s)"
  shows "0 \<le> running_loss (fst (batch_loop m crit opt ph e ds nb k bs s))"
  using assms(2)
proof (induction bs arbitrary: k s)
  case Nil
  then show ?case by simp
next
  case (Cons b bs)
  obtain a w where s: "s = (a, w)" by (cases s)
  have "0 \<le> running_loss (fst (batch_step m crit opt ph e ds nb k b s))"
    using Cons.prems assms(1) by (simp add: s batch_step_running_loss)
  then show ?case using Cons.IH by simp
qed

text \<open>A phase, read through its accumulators and metrics.\<close>

lemma run_phase_unfold:
  "run_phase m name dls crit opt e ph (st, w) =
     (if dataset_len (dls ph) = 0 then Inl ZeroDivisionError
      else (let (a, w2) = phase_accum m crit opt dls e ph w;
                (acc, p, r, f) = metrics_of a;
                st1 = st\<lparr>model_loss := (model_loss st)(ph := (model_loss st ph)[e := running_loss a / real (dataset_len (dls ph))])\<rparr>;
                w3 = w2\<lparr>logged := logged w2 @ [PhaseSummary ph (running_loss a / real (dataset_len (dls ph))) acc p r f]\<rparr>
            in Inr (update_best m name ph acc p r f (st1, w3))))"
  by (simp add: run_phase_def phase_accum_def metrics_of_def Let_def split: prod.splits)

lemma run_phase_epoch_loss:
  assumes "run_phase m name dls crit opt e ph (st, w) = Inr (st', w')"
      and "e < length (model_loss st ph)"
  shows "model_loss st' ph ! e =
           running_loss (fst (phase_accum m crit opt dls e ph w)) / real (dataset_len (dls ph))"
  using assms
  by (auto simp add: run_phase_unfold update_best_def Let_def split_beta split: if_splits)

text \<open>
  Claim C2: the loss of a batch is accumulated weighted by the batch's example count, and
  the epoch loss is the accumulated loss divided by the size of the phase's dataset. The
  code weights by \<^verbatim>\<open>inputs.size(0)\<close>, and the token tensor has one row per time
  step (lemma \<open>batch_step_running_loss\<close>): the batch of the small run has two
  examples of three tokens, its loss 1 is added three times, and the validation loss
  recorded for the dataset of two examples is 3/2, where the mean over examples is 1.
  The division by the dataset size and the sign are as claimed (lemmas
  \<open>run_phase_epoch_loss\<close> and \<open>batch_loop_loss_nonneg\<close>).
\<close>

theorem loss_weighted_by_sequence_length:
  "length (stack_dim1 (labels toy_batch)) = 2 \<and>
   size0 (inputs toy_batch) = 3 \<and>
   running_loss (fst (batch_step toy_module toy_criterion toy_optimizer Val 0 2 1 0 toy_batch
                        (init_accum, toy_world))) = 3 \<and>
   \<not> isl toy_val_phase \<and>
   model_loss (fst (projr toy_val_phase)) Val = [3 / 2]"
  by code_simp

lemma batch_step_logged:
  "logged (snd (batch_step m crit opt ph e ds nb k b (a, w))) =
     logged w @
     (if ph = Train \<and> k mod 50 = 0
      then [TrainProgress (e + 1) ((k + 1) * length (labels b)) ds
              (100 * real (k + 1) / real nb)
              (crit (fst (fst (forward m w (inputs b)))) (stack_dim1 (labels b)))]
      else [])"
  by (simp add: batch_step_def Let_def split_beta backward_and_step_logged forward_frame)

text \<open>
  Claim C6: every 50 batches of the training phase a progress line is logged with the
  epoch, the number of examples processed so far, the dataset size, the percentage and
  the batch loss. The line is logged at batch indices 0, 50, 100, ... (lemma
  \<open>batch_step_logged\<close>), but its count is \<^verbatim>\<open>(batch_idx + 1) * len(labels)\<close>
  and \<open>labels\<close> is the tuple of the seven label columns: after the first batch of
  the small run, which has two examples, the line reports 7 of 2 examples.
\<close>

theorem progress_line_counts_classes:
  "length (stack_dim1 (labels toy_batch)) = 2 \<and>
   logged (snd (batch_step toy_module toy_criterion toy_optimizer Train 0 2 1 0 toy_batch
                  (init_accum, toy_world))) = [TrainProgress 1 7 2 100 1]"
  by code_simp

section \<open>The best checkpoint\<close>

lemma run_phase_best:
  assumes "run_phase m name dls crit opt e ph (st, w) = Inr (st', w')"
  shows "(if ph = Val \<and> f1_of (fst (phase_accum m crit opt dls e ph w)) > best_f1 st
          then best_f1 st' = f1_of (fst (phase_accum m crit opt dls e ph w)) \<and>
               (best_acc st', best_precision st', best_recall st', best_f1 st') =
                  metrics_of (fst (phase_accum m crit opt dls e ph w)) \<and>
               best_model_wts st' = state_dict m \<and>
               files w' = (files w)(checkpoint_path name \<mapsto> param_values m (heap w'))
          else best_f1 st' = best_f1 st \<and> best_acc st' = best_acc st \<and>
               best_precision st' = best_precision st \<and> best_recall st' = best_recall st \<and>
               best_model_wts st' = best_model_wts st \<and> files w' = files w)"
  using assms batch_loop_frame [of m crit opt ph e "dataset_len (dls ph)" "length (batches (dls ph) e)" 0 "batches (dls ph) e" "(init_accum, w\<lparr>training := (ph = Train)\<rparr>)"]
  by (auto simp add: run_phase_unfold update_best_def f1_of_def Let_def torch_save_def
        param_values_def state_dict_def phase_accum_def
      split: prod.splits if_splits)

lemma run_phase_mono:
  assumes "run_phase m name dls crit opt e ph (st, w) = Inr (st', w')"
  shows "best_f1 st \<le> best_f1 st'"
  using run_phase_best [OF assms] by (auto split: if_splits)

lemma run_phase_same_best:
  assumes "run_phase m name dls crit opt e ph (st, w) = Inr (st', w')"
      and "best_f1 st' = best_f1 st"
  shows "files w' = files w"
  using run_phase_best [OF assms(1)] assms(2) by (auto split: if_splits)

lemma run_phase_lr:
  assumes "run_phase m name dls crit opt e ph (st, w) = Inr (st', w')"
  shows "opt_lr w' = opt_lr w"
  using assms batch_loop_frame [of m crit opt ph e "dataset_len (dls ph)" "length (batches (dls ph) e)" 0 "batches (dls ph) e" "(init_accum, w\<lparr>training := (ph = Train)\<rparr>)"]
  by (auto simp add: run_phase_unfold update_best_def Let_def torch_save_def phase_accum_def
      split: prod.splits if_splits)

lemma run_epoch_props:
  assumes "run_epoch m name dls crit opt n e (st, w) = Inr (st', w')"
  shows "best_f1 st \<le> best_f1 st' \<and> opt_lr w' = opt_lr w \<and>
         (best_f1 st' = best_f1 st \<longrightarrow> files w' = files w)"
proof -
  let ?w1 = "w\<lparr>logged := logged w @ [EpochHeader (e + 1) n, Dashes]\<rparr>"
  from assms obtain st1 w1 where
    t: "run_phase m name dls crit opt e Train (st, ?w1) = Inr (st1, w1)" and
    v: "run_phase m name dls crit opt e Val (st1, w1) = Inr (st', w')"
    by (auto simp add: run_epoch_def Let_def split: sum.splits)
  have a: "best_f1 st \<le> best_f1 st1" "best_f1 st1 \<le> best_f1 st'"
    using run_phase_mono [OF t] run_phase_mono [OF v] by simp_all
  have b: "opt_lr w' = opt_lr w"
    using run_phase_lr [OF t] run_phase_lr [OF v] by simp
  have c: "files w' = files w" if "best_f1 st' = best_f1 st"
  proof -
    from a that have "best_f1 st1 = best_f1 st" "best_f1 st' = best_f1 st1" by simp_all
    then show ?thesis
      using run_phase_same_best [OF t] run_phase_same_best [OF v] by simp
  qed
  from a b c show ?thesis by auto
qed

lemma epochs_loop_props:
  assumes "epochs_loop m name dls crit opt n es (st, w) = Inr (st', w')"
  shows "best_f1 st \<le> best_f1 st' \<and> opt_lr w' = opt_lr w \<and>
         (best_f1 st' = best_f1 st \<longrightarrow> files w' = files w)"
  using assms
proof (induction es arbitrary: st w)
  case Nil
  then show ?case by simp
next
  case (Cons e es)
  from Cons.prems obtain st1 w1 where
    h: "run_epoch m name dls crit opt n e (st, w) = Inr (st1, w1)" and
    t: "epochs_loop m name dls crit opt n es (st1, w1) = Inr (st', w')"
    by (auto split: sum.splits)
  from run_epoch_props [OF h] Cons.IH [OF t] show ?case by auto
qed

text \<open>
  Claim C4: the best accuracy, precision, recall, F1 and the checkpoint file are updated
  exactly when the phase is val and the F1 of the phase strictly exceeds the best F1 so
  far, which starts at 0; so the best F1, the validation F1 of the persisted checkpoint,
  never decreases over the epochs, and epochs that leave it unchanged leave the file
  unchanged.
\<close>

theorem best_checkpoint_update:
  assumes "run_phase m name dls crit opt e ph (st, w) = Inr (st', w')"
      and "epochs_loop m name dls crit opt n es (st0, w0) = Inr (st1, w1)"
  shows "(if ph = Val \<and> f1_of (fst (phase_accum m crit opt dls e ph w)) > best_f1 st
          then best_f1 st' = f1_of (fst (phase_accum m crit opt dls e ph w)) \<and>
               (best_acc st', best_precision st', best_recall st', best_f1 st') =
                  metrics_of (fst (phase_accum m crit opt dls e ph w)) \<and>
               best_model_wts st' = state_dict m \<and>
               files w' = (files w)(checkpoint_path name \<mapsto> param_values m (heap w'))
          else best_f1 st' = best_f1 st \<and> best_acc st' = best_acc st \<and>
               best_precision st' = best_precision st \<and> best_recall st' = best_recall st \<and>
               best_model_wts st' = best_model_wts st \<and> files w' = files w) \<and>
         best_f1 st \<le> best_f1 st' \<and>
         best_f1 (init_train_state m n) = 0 \<and>
         best_f1 st0 \<le> best_f1 st1 \<and>
         (best_f1 st1 = best_f1 st0 \<longrightarrow> files w1 = files w0)"
  using run_phase_best [OF assms(1)] run_phase_mono [OF assms(1)] epochs_loop_props [OF assms(2)]
  by (simp add: init_train_state_def)

theorem best_checkpoint_update_witness:
  "toy_val_phase = Inr (fst (projr toy_val_phase), snd (projr toy_val_phase)) \<and>
   toy_second_epoch = Inr (fst (projr toy_second_epoch), snd (projr toy_second_epoch)) \<and>
   f1_of (fst (phase_accum toy_module toy_criterion toy_optimizer toy_loaders 0 Val toy_good_world))
     > best_f1 (init_train_state toy_module 1) \<and>
   best_f1 (fst (projr toy_val_phase)) =
     f1_of (fst (phase_accum toy_module toy_criterion toy_optimizer toy_loaders 0 Val toy_good_world)) \<and>
   files (snd (projr toy_val_phase)) =
     (files toy_good_world)(checkpoint_path ''BiLSTMNetwork'' \<mapsto>
        param_values toy_module (heap (snd (projr toy_val_phase)))) \<and>
   best_f1 (fst (projr toy_second_epoch)) = best_f1 (fst (projr (toy_epochs [0]))) \<and>
   files (snd (projr toy_second_epoch)) = files (snd (projr (toy_epochs [0])))"
proof -
  have "\<not> isl toy_val_phase" by code_simp
  then have h1: "toy_val_phase = Inr (fst (projr toy_val_phase), snd (projr toy_val_phase))"
    by (rule not_isl_collapse_pair)
  have "\<not> isl toy_second_epoch" by code_simp
  then have h2: "toy_second_epoch = Inr (fst (projr toy_second_epoch), snd (projr toy_second_epoch))"
    by (rule not_isl_collapse_pair)
  have c: "f1_of (fst (phase_accum toy_module toy_criterion toy_optimizer toy_loaders 0 Val toy_good_world))
             > best_f1 (init_train_state toy_module 1)"
    by code_simp
  have q: "best_f1 (fst (projr toy_second_epoch)) = best_f1 (fst (projr (toy_epochs [0])))"
    by code_simp
  have inst:
    "(if Val = Val \<and>
         f1_of (fst (phase_accum toy_module toy_criterion toy_optimizer toy_loaders 0 Val toy_good_world))
           > best_f1 (init_train_state toy_module 1)
      then best_f1 (fst (projr toy_val_phase)) =
             f1_of (fst (phase_accum toy_module toy_criterion toy_optimizer toy_loaders 0 Val toy_good_world)) \<and>
           (best_acc (fst (projr toy_val_phase)), best_precision (fst (projr toy_val_phase)),
            best_recall (fst (projr toy_val_phase)), best_f1 (fst (projr toy_val_phase))) =
             metrics_of (fst (phase_accum toy_module toy_criterion toy_optimizer toy_loaders 0 Val toy_good_world)) \<and>
           best_model_wts (fst (projr toy_val_phase)) = state_dict toy_module \<and>
           files (snd (projr toy_val_phase)) =
             (files toy_good_world)(checkpoint_path ''BiLSTMNetwork'' \<mapsto>
                param_values toy_module (heap (snd (projr toy_val_phase))))
      else best_f1 (fst (projr toy_val_phase)) = best_f1 (init_train_state toy_module 1) \<and>
           best_acc (fst (projr toy_val_phase)) = best_acc (init_train_state toy_module 1) \<and>
           best_precision (fst (projr toy_val_phase)) = best_precision (init_train_state toy_module 1) \<and>
           best_recall (fst (projr toy_val_phase)) = best_recall (init_train_state toy_module 1) \<and>
           best_model_wts (fst (projr toy_val_phase)) = best_model_wts (init_train_state toy_module 1) \<and>
           files (snd (projr toy_val_phase)) = files toy_good_world) \<and>
     best_f1 (init_train_state toy_module 1) \<le> best_f1 (fst (projr toy_val_phase)) \<and>
     best_f1 (init_train_state toy_module 2) = 0 \<and>
     best_f1 (fst (projr (toy_epochs [0]))) \<le> best_f1 (fst (projr toy_second_epoch)) \<and>
     (best_f1 (fst (projr toy_second_epoch)) = best_f1 (fst (projr (toy_epochs [0]))) \<longrightarrow>
        files (snd (projr toy_second_epoch)) = files (snd (projr (toy_epochs [0]))))"
    using h1 h2 unfolding toy_val_phase_def toy_second_epoch_def by (rule best_checkpoint_update)
  from inst c have a: "best_f1 (fst (projr toy_val_phase)) =
     f1_of (fst (phase_accum toy_module toy_criterion toy_optimizer toy_loaders 0 Val toy_good_world))"
    and b: "files (snd (projr toy_val_phase)) =
     (files toy_good_world)(checkpoint_path ''BiLSTMNetwork'' \<mapsto>
        param_values toy_module (heap (snd (projr toy_val_phase))))"
    by simp_all
  from inst q have d: "files (snd (projr toy_second_epoch)) = files (snd (projr (toy_epochs [0])))"
    by blast
  from h1 h2 c a b q d show ?thesis by blast
qed

section \<open>The returned weights\<close>

lemma load_own_tensors:
  assumes "\<forall>(n, a) \<in> set ps. map_of sd n = Some a"
  shows "fold (\<lambda>(n, a) h. case map_of sd n of Some b \<Rightarrow> h(a := h b) | None \<Rightarrow> h) ps h = h"
  using assms by (induction ps arbitrary: h) auto

lemma load_own_state_dict:
  assumes "distinct (map fst (params m))"
  shows "load_state_dict m (state_dict m) w = w"
proof -
  have "\<forall>(n, a) \<in> set (params m). map_of (params m) n = Some a"
    using assms by auto
  then show ?thesis
    by (simp add: load_state_dict_def state_dict_def load_own_tensors)
qed

lemma run_phase_wts:
  assumes "run_phase m name dls crit opt e ph (st, w) = Inr (st', w')"
      and "best_model_wts st = state_dict m"
  shows "best_model_wts st' = state_dict m"
  using run_phase_best [OF assms(1)] assms(2) by (auto split: if_splits)

lemma epochs_loop_wts:
  assumes "epochs_loop m name dls crit opt n es (st, w) = Inr (st', w')"
      and "best_model_wts st = state_dict m"
  shows "best_model_wts st' = state_dict m"
  using assms
proof (induction es arbitrary: st w)
  case Nil
  then show ?case by simp
next
  case (Cons e es)
  from Cons.prems(1) obtain st1 w1 where
    h: "run_epoch m name dls crit opt n e (st, w) = Inr (st1, w1)" and
    t: "epochs_loop m name dls crit opt n es (st1, w1) = Inr (st', w')"
    by (auto split: sum.splits)
  from h obtain st2 w2 where
    p1: "run_phase m name dls crit opt e Train (st, w\<lparr>logged := logged w @ [EpochHeader (e + 1) n, Dashes]\<rparr>) = Inr (st2, w2)" and
    p2: "run_phase m name dls crit opt e Val (st2, w2) = Inr (st1, w1)"
    by (auto simp add: run_epoch_def Let_def split: sum.splits)
  have "best_model_wts st1 = state_dict m"
    using run_phase_wts [OF p2 run_phase_wts [OF p1 Cons.prems(2)]] .
  with Cons.IH [OF t] show ?case by simp
qed

lemma train_model_keeps_last_weights:
  assumes "distinct (map fst (params m))"
      and "train_model m name dls crit opt sch a n w = Inr (res, w')"
  shows "\<exists>st w1. epochs_loop m name dls crit opt n [0..<n] (init_train_state m n, w) = Inr (st, w1) \<and>
           heap w' = heap w1"
proof -
  from assms(2) obtain st w1 where
    e: "epochs_loop m name dls crit opt n [0..<n] (init_train_state m n, w) = Inr (st, w1)"
    by (auto simp add: train_model_def split: sum.splits)
  have "best_model_wts st = state_dict m"
    using epochs_loop_wts [OF e] by (simp add: init_train_state_def)
  with assms e have "heap w' = heap w1"
    by (auto simp add: train_model_def Let_def load_own_state_dict)
  with e show ?thesis by blast
qed

text \<open>
  Claim C1: after all epochs \<^verbatim>\<open>train_model\<close> reloads the best snapshot, so the
  returned weights are those of the end of the epoch with the best validation F1 and not
  those of the last epoch. The code keeps \<^verbatim>\<open>model.state_dict()\<close> as the snapshot,
  which shares its tensors with the live model (the comment at line 121 asks for a deep
  copy). In the small run the first epoch ends with \<open>w = 1\<close> and validation F1 1, the
  second with \<open>w = 2\<close> and validation F1 0: the checkpoint file holds \<open>w = 1\<close>,
  the best F1 stays 1, and the returned model holds \<open>w = 2\<close>, the weights of the last
  epoch.
\<close>

theorem returned_weights_are_last_epoch:
  "\<not> isl (toy_epochs [0]) \<and>
   heap (snd (projr (toy_epochs [0]))) 0 = 1 \<and>
   best_f1 (fst (projr (toy_epochs [0]))) = 1 \<and>
   \<not> isl (toy_epochs [0, 1]) \<and>
   heap (snd (projr (toy_epochs [0, 1]))) 0 = 2 \<and>
   best_f1 (fst (projr (toy_epochs [0, 1]))) = 1 \<and>
   \<not> isl toy_run \<and>
   heap (snd (projr toy_run)) 0 = 2 \<and>
   files (snd (projr toy_run)) (checkpoint_path ''BiLSTMNetwork'') = Some [(''w'', 1)]"
  by code_simp

section \<open>The evaluation routine leaves the world alone\<close>

lemma test_step_eval:
  "\<not> training w \<Longrightarrow>
     test_step m b (a, w) =
       (a\<lparr>y_true := y_true a @ stack_dim1 (labels b),
          y_pred := y_pred a @ where_gt (4 / 10) (snd (fwd_eval m (param_values m (heap w)) (inputs b)))\<rparr>, w)"
  by (simp add: test_step_def forward_eval Let_def split: prod.splits)

lemma test_loop_eval:
  "\<not> training w \<Longrightarrow> \<not> training w' \<Longrightarrow> heap w = heap w' \<Longrightarrow>
     snd (test_loop m bs (a, w)) = w \<and>
     fst (test_loop m bs (a, w)) = fst (test_loop m bs (a, w'))"
  by (induction bs arbitrary: a) (simp_all add: test_step_eval)

lemma test_model_same_weights:
  assumes "heap w = heap w'"
  shows "fst (test_model m bs w) = fst (test_model m bs w') \<and>
         last (logged (snd (test_model m bs w))) = last (logged (snd (test_model m bs w')))"
proof -
  have "fst (test_loop m bs (init_accum, w\<lparr>training := False\<rparr>)) =
        fst (test_loop m bs (init_accum, w'\<lparr>training := False\<rparr>))"
    using test_loop_eval [of "w\<lparr>training := False\<rparr>" "w'\<lparr>training := False\<rparr>" m bs init_accum] assms
    by simp
  then show ?thesis
    by (simp add: test_model_def Let_def split_beta)
qed

lemma test_model_frame:
  "heap (snd (test_model m bs w)) = heap w \<and>
   opt_state (snd (test_model m bs w)) = opt_state w \<and>
   opt_lr (snd (test_model m bs w)) = opt_lr w \<and>
   files (snd (test_model m bs w)) = files w \<and>
   rng (snd (test_model m bs w)) = rng w"
  using test_loop_eval [of "w\<lparr>training := False\<rparr>" "w\<lparr>training := False\<rparr>" m bs init_accum]
  by (simp add: test_model_def Let_def split_beta)

text \<open>
  Claim C8: evaluating the same weights twice on the same batches gives identical
  predictions and metrics. A second run of \<^verbatim>\<open>test_model\<close> from the world the first
  one left returns the same label matrices and prints the same summary line, and so does
  a run from a world with any other training flag and generator state.
\<close>

theorem evaluation_deterministic:
  "fst (test_model m bs (snd (test_model m bs w))) = fst (test_model m bs w) \<and>
   last (logged (snd (test_model m bs (snd (test_model m bs w))))) =
     last (logged (snd (test_model m bs w))) \<and>
   fst (test_model m bs (w\<lparr>training := t, rng := r\<rparr>)) = fst (test_model m bs w) \<and>
   last (logged (snd (test_model m bs (w\<lparr>training := t, rng := r\<rparr>)))) =
     last (logged (snd (test_model m bs w)))"
  using test_model_same_weights [of "snd (test_model m bs w)" w m bs]
        test_model_same_weights [of "w\<lparr>training := t, rng := r\<rparr>" w m bs]
        test_model_frame [of m bs w]
  by simp

text \<open>
  Claim C9: \<^verbatim>\<open>test_model\<close> performs no parameter update: the parameter tensors,
  the optimizer's state and learning rate and the checkpoint files are after the call what
  they were before it, for every stream of batches.
\<close>

theorem evaluation_updates_no_parameters:
  "heap (snd (test_model m bs w)) = heap w \<and>
   opt_state (snd (test_model m bs w)) = opt_state w \<and>
   opt_lr (snd (test_model m bs w)) = opt_lr w \<and>
   files (snd (test_model m bs w)) = files w"
  using test_model_frame [of m bs w] by blast

section \<open>The learning rate\<close>

lemma train_model_lr:
  assumes "train_model m name dls crit opt sch a n w = Inr (res, w')"
  shows "opt_lr w' = opt_lr w"
proof -
  from assms obtain st w1 where
    e: "epochs_loop m name dls crit opt n [0..<n] (init_train_state m n, w) = Inr (st, w1)"
    by (auto simp add: train_model_def split: sum.splits)
  from epochs_loop_props [OF e] have "opt_lr w1 = opt_lr w" by simp
  with assms e show ?thesis
    by (auto simp add: train_model_def Let_def load_state_dict_def)
qed

lemma main_lr:
  assumes "main env a w0 = Inr w1"
  shows "opt_lr w1 = lr a"
proof (cases "test a")
  case False
  obtain model init where mi: "BiLSTM env (hidden_size a) (dropout a) (attention a) = (model, init)"
    by (cases "BiLSTM env (hidden_size a) (dropout a) (attention a)")
  obtain optimizer ost where oo: "Adam env (1 / 100, 999 / 1000) (1 / 100000) = (optimizer, ost)"
    by (cases "Adam env (1 / 100, 999 / 1000) (1 / 100000)")
  from assms False mi oo obtain res w4 where
    t: "train_model model (if \<not> attention a then ''BiLSTMNetwork'' else ''BiLSTM_AttentionNetwork'')
          (train_val_iters env (batch_size a)) (BCEWithLogitsLoss env) optimizer
          \<lparr>base_lr = lr a, step_size = step a, sched_gamma = gamma a\<rparr> a (nat (epochs a))
          (say ''Training...'' (w0\<lparr>heap := write_values (params model) init (heap w0), opt_state := ost, opt_lr := lr a\<rparr>)) = Inr (res, w4)"
    and w: "w1 = say ''Completed Successfully!'' (plot_loss (fst res) (if \<not> attention a then ''BiLSTMNetwork'' else ''BiLSTM_AttentionNetwork'') w4)"
    by (auto simp add: main_def Let_def split: sum.splits if_splits)
  from train_model_lr [OF t] w show ?thesis
    by (simp add: say_def plot_loss_def)
next
  case True
  with assms show ?thesis
    by (auto simp add: main_def Let_def say_def split_beta test_model_frame
        split: option.splits if_splits)
qed

text \<open>
  What the code does with the rate: no list of epochs changes the optimizer's learning
  rate, and \<^verbatim>\<open>main\<close> ends with the rate it configured, whatever \<open>step\<close> and
  \<open>gamma\<close> are.
\<close>

theorem learning_rate_stays_constant:
  assumes "epochs_loop m name dls crit opt n es (st, w) = Inr (st', w')"
      and "main env a w0 = Inr w1"
  shows "opt_lr w' = opt_lr w \<and> opt_lr w1 = lr a"
  using epochs_loop_props [OF assms(1)] main_lr [OF assms(2)] by simp

theorem learning_rate_stays_constant_witness:
  "toy_epochs [0, 1] = Inr (fst (projr (toy_epochs [0, 1])), snd (projr (toy_epochs [0, 1]))) \<and>
   toy_main = Inr (projr toy_main) \<and>
   opt_lr (snd (projr (toy_epochs [0, 1]))) = opt_lr toy_world \<and>
   opt_lr (projr toy_main) = lr toy_args"
proof -
  have "\<not> isl (toy_epochs [0, 1])" by code_simp
  then have h1: "toy_epochs [0, 1] = Inr (fst (projr (toy_epochs [0, 1])), snd (projr (toy_epochs [0, 1])))"
    by (rule not_isl_collapse_pair)
  have "\<not> isl toy_main" by code_simp
  then have h2: "toy_main = Inr (projr toy_main)"
    by (rule not_isl_collapse)
  have "opt_lr (snd (projr (toy_epochs [0, 1]))) = opt_lr toy_world \<and>
        opt_lr (projr toy_main) = lr toy_args"
    using h1 h2 unfolding toy_epochs_def toy_main_def by (rule learning_rate_stays_constant)
  with h1 h2 show ?thesis by (intro conjI) (erule conjunct1 conjunct2 | assumption)+
qed

text \<open>
  Claim C5: during every training run the learning rate is decayed by the factor
  \<open>gamma\<close> once every \<open>step\<close> epochs. The help of the two options (lines 277 to
  280) says so and \<^verbatim>\<open>main\<close> builds the \<^verbatim>\<open>StepLR\<close> scheduler from them
  (line 209), but the only \<^verbatim>\<open>scheduler.step()\<close> is commented out (line 64). In the
  small run, with a rate of 1/1000, a period of one epoch and a factor of 1/10, two epochs
  of decay would leave 1/100000, and the run ends with the rate still at 1/1000.
\<close>

theorem learning_rate_not_decayed:
  "\<not> isl toy_main \<and>
   opt_lr (projr toy_main) = 1 / 1000 \<and>
   steplr_rate \<lparr>base_lr = lr toy_args, step_size = step toy_args, sched_gamma = gamma toy_args\<rparr>
      (nat (epochs toy_args)) = 1 / 100000 \<and>
   opt_lr (projr toy_main) \<noteq>
     steplr_rate \<lparr>base_lr = lr toy_args, step_size = step toy_args, sched_gamma = gamma toy_args\<rparr>
       (nat (epochs toy_args))"
  by code_simp

section \<open>Options that are never read\<close>

text \<open>
  Claim C10: the options \<open>momentum\<close>, \<open>weight_decay\<close> and \<open>num_layers\<close>
  have no effect: two runs of \<^verbatim>\<open>main\<close> that differ only in them end in the same
  result (error or final world: weights, checkpoint and plot files, log).
\<close>

theorem dead_options_have_no_effect:
  "main env (a\<lparr>momentum := x, weight_decay := y, num_layers := z\<rparr>) w = main env a w"
proof -
  have t: "train_model mo name dls crit opt sch (a\<lparr>momentum := x, weight_decay := y, num_layers := z\<rparr>) k w' =
           train_model mo name dls crit opt sch a k w'"
    for mo :: "('a, 'c) module" and name dls crit and opt :: "('a, 'b, 'c) optimizer" and sch k
      and w' :: "('a, 'b, 'c) world"
    by (simp add: train_model_def)
  show ?thesis
    unfolding main_def by (simp add: t cong: if_cong)
qed

end
